theory Spec2Isabelle
  imports Main "HOL-Library.Word" "HOL-Library.Multiset"
begin

section \<open>JavaScript values that the gateway handles\<close>

text \<open>
  The gateway is TypeScript running on Node. Its two entry points are
  \<^verbatim>\<open>broadcastSignedTx\<close> (cosmos-client) and \<^verbatim>\<open>queryAny\<close> (index.ts). The embedding
  follows the source function by function, and every function that can throw returns a
  sum, \<open>Inl\<close> carrying the thrown value.
\<close>

type_synonym byte = "8 word"

text \<open>
  A value that the code reads where it expects a string (the \<^verbatim>\<open>message\<close> of a caught
  value, the node's \<^verbatim>\<open>rawLog\<close>, an environment variable): \<^verbatim>\<open>undefined\<close> (also a
  property that is missing), \<^verbatim>\<open>null\<close>, or a string.
\<close>

datatype js_text = Undefined | Null | Text string

text \<open>
  JavaScript can throw any value. What the code does with a caught value is read its
  \<^verbatim>\<open>message\<close>, test it with \<^verbatim>\<open>??\<close>, or throw it again. So three kinds are told
  apart: \<^verbatim>\<open>undefined\<close>, \<^verbatim>\<open>null\<close>, and every other value, given by what reading its
  \<^verbatim>\<open>message\<close> yields. \<open>Error msg\<close> is \<^verbatim>\<open>new Error(msg)\<close>.
\<close>

datatype thrown = Throw_undefined | Throw_null | Thrown js_text

abbreviation Error :: "string \<Rightarrow> thrown" where
  "Error msg \<equiv> Thrown (Text msg)"

text \<open>
  \<^verbatim>\<open>error.message\<close>: reading a property of \<^verbatim>\<open>undefined\<close> or \<^verbatim>\<open>null\<close> throws a
  TypeError.
\<close>

definition cannot_read_message :: "string \<Rightarrow> thrown" where
  "cannot_read_message v =
     Error (''Cannot read properties of '' @ v @ '' (reading '' @ [CHR 0x27] @ ''message''
            @ [CHR 0x27] @ '')'')"

fun get_message :: "thrown \<Rightarrow> thrown + js_text" where
  "get_message Throw_undefined = Inl (cannot_read_message ''undefined'')"
| "get_message Throw_null = Inl (cannot_read_message ''null'')"
| "get_message (Thrown m) = Inr m"

text \<open>\<^verbatim>\<open>v ?? w\<close> takes \<^verbatim>\<open>w\<close> exactly when \<^verbatim>\<open>v\<close> is \<^verbatim>\<open>undefined\<close> or \<^verbatim>\<open>null\<close>.\<close>

fun is_nullish :: "thrown \<Rightarrow> bool" where
  "is_nullish Throw_undefined = True"
| "is_nullish Throw_null = True"
| "is_nullish (Thrown m) = False"

text \<open>A template literal renders \<^verbatim>\<open>undefined\<close> and \<^verbatim>\<open>null\<close> by their names.\<close>

fun template :: "js_text \<Rightarrow> string" where
  "template Undefined = ''undefined''"
| "template Null = ''null''"
| "template (Text s) = s"

text \<open>\<^verbatim>\<open>a || b\<close>: \<^verbatim>\<open>b\<close> when \<^verbatim>\<open>a\<close> is \<^verbatim>\<open>undefined\<close>, \<^verbatim>\<open>null\<close> or the empty string.\<close>

fun or_else :: "js_text \<Rightarrow> string \<Rightarrow> string" where
  "or_else Undefined b = b"
| "or_else Null b = b"
| "or_else (Text s) b = (if s = [] then b else s)"

text \<open>
  \<^verbatim>\<open>a ?? b\<close> on a field of the node's result, where \<open>None\<close> is a field that is missing,
  \<^verbatim>\<open>undefined\<close> or \<^verbatim>\<open>null\<close>: the operator does not tell these apart.
\<close>

definition nullish :: "'a option \<Rightarrow> 'a option \<Rightarrow> 'a option" where
  "nullish a b = (case a of None \<Rightarrow> b | Some v \<Rightarrow> Some v)"

text \<open>\<^verbatim>\<open>try { body } catch (error) { handler }\<close>.\<close>

definition try_catch :: "thrown + 'a \<Rightarrow> (thrown \<Rightarrow> thrown + 'a) \<Rightarrow> thrown + 'a" where
  "try_catch body handler = (case body of Inl error \<Rightarrow> handler error | Inr v \<Rightarrow> Inr v)"

text \<open>
  \<^verbatim>\<open>String(n)\<close> for an integer \<^verbatim>\<open>n\<close>: its decimal digits, most significant first, after a
  minus sign when it is negative. Property keys and template literals render numbers so.
\<close>

definition digit_char :: "nat \<Rightarrow> char" where
  "digit_char d = char_of (48 + d)"

fun ToString :: "nat \<Rightarrow> string" where
  "ToString n =
     (if n div 10 = 0 then [digit_char n]
      else ToString (n div 10) @ [digit_char (n mod 10)])"

definition ToString_int :: "int \<Rightarrow> string" where
  "ToString_int i = (if 0 \<le> i then ToString (nat i) else CHR ''-'' # ToString (nat (- i)))"

text \<open>\<^verbatim>\<open>Array.prototype.join\<close> on an array of strings.\<close>

fun join :: "string \<Rightarrow> string list \<Rightarrow> string" where
  "join sep [] = []"
| "join sep [x] = x"
| "join sep (x # y # ys) = x @ sep @ join sep (y # ys)"

section \<open>Wire codec\<close>

subsection \<open>Hex decoding: \<^verbatim>\<open>Buffer.from(s, "hex")\<close>\<close>

text \<open>
  \<^verbatim>\<open>Buffer.from(s, "hex")\<close> is Node's, not the repository's. Node documents it so:
  ``Data truncation may occur when decoding strings that do not exclusively consist of
  an even number of hexadecimal characters'', with the examples
  \<^verbatim>\<open>Buffer.from('1ag123', 'hex')\<close> giving one byte \<^verbatim>\<open>1a\<close> and \<^verbatim>\<open>Buffer.from('1a7', 'hex')\<close>
  giving one byte \<^verbatim>\<open>1a\<close>. Its decoder reads two characters at a time and stops, without
  an error, at the first pair that is incomplete or holds a character outside
  \<^verbatim>\<open>0-9a-fA-F\<close>.
\<close>

definition unhex :: "char \<Rightarrow> nat option" where
  "unhex c =
     (let n = (of_char c :: nat) in
      if 48 \<le> n \<and> n \<le> 57 then Some (n - 48)
      else if 97 \<le> n \<and> n \<le> 102 then Some (n - 87)
      else if 65 \<le> n \<and> n \<le> 70 then Some (n - 55)
      else None)"

fun Buffer_from_hex :: "string \<Rightarrow> byte list" where
  "Buffer_from_hex (c1 # c2 # rest) =
     (case unhex c1 of
        None \<Rightarrow> []
      | Some a \<Rightarrow>
          (case unhex c2 of
             None \<Rightarrow> []
           | Some b \<Rightarrow> word_of_nat (16 * a + b) # Buffer_from_hex rest))"
| "Buffer_from_hex [c] = []"
| "Buffer_from_hex [] = []"

text \<open>\<^verbatim>\<open>signedTxHex.replace(/^0x/, "")\<close>: one leading lowercase \<^verbatim>\<open>0x\<close> is removed.\<close>

fun replace_0x :: "string \<Rightarrow> string" where
  "replace_0x (c1 # c2 # rest) = (if c1 = CHR ''0'' \<and> c2 = CHR ''x'' then rest else c1 # c2 # rest)"
| "replace_0x s = s"

text \<open>
  A string of complete hex pairs, and a remainder at which the decoder stops: empty,
  a single character, or a first pair with a character that is not a hex digit.
\<close>

definition is_hex :: "char \<Rightarrow> bool" where
  "is_hex c = (unhex c \<noteq> None)"

fun hex_pairs :: "string \<Rightarrow> bool" where
  "hex_pairs [] = True"
| "hex_pairs [c] = False"
| "hex_pairs (c1 # c2 # rest) = (is_hex c1 \<and> is_hex c2 \<and> hex_pairs rest)"

fun stops_decoding :: "string \<Rightarrow> bool" where
  "stops_decoding [] = True"
| "stops_decoding [c] = True"
| "stops_decoding (c1 # c2 # rest) = (\<not> (is_hex c1 \<and> is_hex c2))"

subsection \<open>Byte maps: \<^verbatim>\<open>decimalBytesToUint8Array\<close>\<close>

text \<open>
  The node's byte payload is an object whose keys are decimal indices and whose values
  are numbers. \<open>None\<close> is a payload that is \<^verbatim>\<open>undefined\<close> or \<^verbatim>\<open>null\<close>, on which
  \<^verbatim>\<open>Object.keys\<close> throws a TypeError.

  \<^verbatim>\<open>Number\<close> is followed on keys that are strings of decimal digits, which it reads in
  base ten (exactly so below \<open>2 ^ 53\<close>); other keys are outside this model.
  \<^verbatim>\<open>decimalArray[key]\<close> with a numeric key looks up the property named by the key's
  decimal rendering; a missing property is \<^verbatim>\<open>undefined\<close>, which a \<^verbatim>\<open>Uint8Array\<close> stores
  as 0, and a number is stored modulo 256.
\<close>

type_synonym js_object = "(string \<times> int) list"

definition Object_keys :: "js_object option \<Rightarrow> thrown + string list" where
  "Object_keys obj =
     (case obj of
        None \<Rightarrow> Inl (Error ''Cannot convert undefined or null to object'')
      | Some props \<Rightarrow> Inr (map fst props))"

definition Number :: "string \<Rightarrow> nat" where
  "Number s = foldl (\<lambda>n c. 10 * n + (of_char c - 48)) 0 s"

definition ToUint8 :: "int option \<Rightarrow> byte" where
  "ToUint8 v = (case v of None \<Rightarrow> 0 | Some i \<Rightarrow> word_of_int i)"

definition get_index :: "js_object option \<Rightarrow> nat \<Rightarrow> int option" where
  "get_index obj key = (case obj of None \<Rightarrow> None | Some props \<Rightarrow> map_of props (ToString key))"

definition decimalBytesToUint8Array :: "js_object option \<Rightarrow> thrown + byte list" where
  "decimalBytesToUint8Array decimalArray =
     (case Object_keys decimalArray of
        Inl e \<Rightarrow> Inl e
      | Inr ks \<Rightarrow>
          (let keys = sort (map Number ks)
           in Inr (map (\<lambda>key. ToUint8 (get_index decimalArray key)) keys)))"

section \<open>Message decoder registry and response decoding\<close>

text \<open>
  \<^verbatim>\<open>Map<string, (data: Uint8Array) => any>\<close>: a decoder returns a value or throws.
  A decoded value is whatever the decoder returned, or one of the two placeholder
  objects the source builds: \<^verbatim>\<open>{error, rawBytes}\<close> and \<^verbatim>\<open>{error}\<close>.
\<close>

type_synonym 'v decoder = "byte list \<Rightarrow> thrown + 'v"

type_synonym 'v registry = "string \<rightharpoonup> 'v decoder"

datatype 'v decoded =
    Value 'v
  | Placeholder (error: string) (rawBytes: "nat list")
  | ErrorOnly js_text

definition Array_from :: "byte list \<Rightarrow> nat list" where
  "Array_from messageBytes = map unat messageBytes"

text \<open>
  The \<^verbatim>\<open>catch\<close> block builds its placeholder from \<^verbatim>\<open>error.message\<close>; reading it throws
  when the decoder threw \<^verbatim>\<open>undefined\<close> or \<^verbatim>\<open>null\<close>, and that TypeError leaves the
  function.
\<close>

definition decodeProtobufMessage ::
  "string \<Rightarrow> byte list \<Rightarrow> 'v registry \<Rightarrow> thrown + 'v decoded" where
  "decodeProtobufMessage typeUrl messageBytes messageRegistry =
     (case messageRegistry typeUrl of
        None \<Rightarrow>
          Inr (Placeholder (''Unknown message type: '' @ typeUrl) (Array_from messageBytes))
      | Some decoder \<Rightarrow>
          try_catch
            (case decoder messageBytes of Inl e \<Rightarrow> Inl e | Inr v \<Rightarrow> Inr (Value v))
            (\<lambda>error.
               case get_message error of
                 Inl type_error \<Rightarrow> Inl type_error
               | Inr m \<Rightarrow>
                   Inr (Placeholder (''Failed to decode: '' @ template m)
                                    (Array_from messageBytes))))"

text \<open>
  One entry of the node's \<^verbatim>\<open>msgResponses\<close>, and the node's result. The fields are those
  the source reads; \<^verbatim>\<open>msgResponses = None\<close> is a field that is missing or not an array,
  and a hash field is \<open>None\<close> when it is missing, \<^verbatim>\<open>undefined\<close> or \<^verbatim>\<open>null\<close>.
\<close>

record MsgResponse =
  msg_typeUrl :: string
  msg_value :: "js_object option"

record 'v DecodedMessage =
  typeUrl :: string
  decodedValue :: "'v decoded"

record tx_result =
  code :: int
  rawLog :: js_text
  transactionHash :: "string option"
  txhash :: "string option"
  hash :: "string option"
  msgResponses :: "MsgResponse list option"

text \<open>The body of the \<^verbatim>\<open>for\<close> loop of \<^verbatim>\<open>extractAndDecodeMessages\<close>, with its own \<^verbatim>\<open>try\<close>.\<close>

definition decode_msgResponse ::
  "'v registry \<Rightarrow> MsgResponse \<Rightarrow> thrown + 'v DecodedMessage" where
  "decode_msgResponse messageRegistry msgResponse =
     try_catch
       (case decimalBytesToUint8Array (msg_value msgResponse) of
          Inl e \<Rightarrow> Inl e
        | Inr messageBytes \<Rightarrow>
            (case decodeProtobufMessage (msg_typeUrl msgResponse) messageBytes messageRegistry of
               Inl e \<Rightarrow> Inl e
             | Inr dv \<Rightarrow>
                 Inr \<lparr>typeUrl = msg_typeUrl msgResponse, decodedValue = dv\<rparr>))
       (\<lambda>error.
          case get_message error of
            Inl type_error \<Rightarrow> Inl type_error
          | Inr m \<Rightarrow>
              Inr \<lparr>typeUrl = or_else (Text (msg_typeUrl msgResponse)) ''unknown'',
                   decodedValue = ErrorOnly m\<rparr>)"

fun decode_each ::
  "'v registry \<Rightarrow> MsgResponse list \<Rightarrow> 'v DecodedMessage list \<Rightarrow> thrown + 'v DecodedMessage list" where
  "decode_each messageRegistry [] decodedMessages = Inr decodedMessages"
| "decode_each messageRegistry (msgResponse # rest) decodedMessages =
     (case decode_msgResponse messageRegistry msgResponse of
        Inl e \<Rightarrow> Inl e
      | Inr m \<Rightarrow> decode_each messageRegistry rest (decodedMessages @ [m]))"

definition extractAndDecodeMessages ::
  "tx_result \<Rightarrow> 'v registry \<Rightarrow> thrown + 'v DecodedMessage list" where
  "extractAndDecodeMessages result messageRegistry =
     (case msgResponses result of
        None \<Rightarrow> Inr []
      | Some ms \<Rightarrow> decode_each messageRegistry ms [])"

section \<open>Broadcast pipeline\<close>

record BroadcastOptions =
  service :: string
  action :: string

record 'v BroadcastResult =
  success :: bool
  txHash :: "string option"
  decodedMessages :: "'v DecodedMessage list option"
  responses :: "tx_result option"

text \<open>
  What \<^verbatim>\<open>broadcastSignedTx\<close> reaches outside itself: the dynamic import of the client
  library (\<open>Some e\<close> when it throws), the environment variable, \<^verbatim>\<open>StargateClient.connect\<close>
  (a client, or a thrown value), and the client's \<^verbatim>\<open>broadcastTx\<close>.
\<close>

type_synonym client = "byte list \<Rightarrow> thrown + tx_result"

record env =
  importStargate :: "thrown option"
  COSMOS_RPC_URL :: js_text
  connect :: "string \<Rightarrow> thrown + client"

text \<open>\<^verbatim>\<open>process.env.COSMOS_RPC_URL || "http://localhost:26657"\<close>.\<close>

definition rpc_url :: "env \<Rightarrow> string" where
  "rpc_url e = or_else (COSMOS_RPC_URL e) ''http://localhost:26657''"

text \<open>
  The \<^verbatim>\<open>try\<close> block. The first component is the list of byte sequences handed to
  \<^verbatim>\<open>client.broadcastTx\<close>, the second what the block returns or throws.
\<close>

definition broadcast_try ::
  "env \<Rightarrow> string \<Rightarrow> 'v registry option \<Rightarrow> byte list list \<times> (thrown + 'v BroadcastResult)" where
  "broadcast_try e signedTxHex messageRegistry =
     (if signedTxHex = [] then ([], Inl (Error ''signedTxHex is required''))
      else
        let txBytes = Buffer_from_hex (replace_0x signedTxHex) in
        (case importStargate e of
           Some err \<Rightarrow> ([], Inl err)
         | None \<Rightarrow>
             let rpcUrl = rpc_url e in
             (case connect e rpcUrl of
                Inl err \<Rightarrow> ([], Inl err)
              | Inr client \<Rightarrow>
                  (case client txBytes of
                     Inl err \<Rightarrow> ([txBytes], Inl err)
                   | Inr result \<Rightarrow>
                       if code result \<noteq> 0 then
                         ([txBytes],
                          Inl (Error (''Broadcast failed (code '' @ ToString_int (code result)
                                       @ ''): '' @ template (rawLog result))))
                       else
                         let tx_hash =
                               nullish (transactionHash result)
                                 (nullish (txhash result) (nullish (hash result) (Some [])))
                         in
                         (case messageRegistry of
                            None \<Rightarrow>
                              ([txBytes],
                               Inr \<lparr>success = True, txHash = tx_hash,
                                    decodedMessages = None, responses = Some result\<rparr>)
                          | Some reg \<Rightarrow>
                              (case extractAndDecodeMessages result reg of
                                 Inl err \<Rightarrow> ([txBytes], Inl err)
                               | Inr ms \<Rightarrow>
                                   ([txBytes],
                                    Inr \<lparr>success = True, txHash = tx_hash,
                                         decodedMessages = Some ms,
                                         responses = Some result\<rparr>)))))))"

text \<open>
  The whole function: the \<^verbatim>\<open>catch\<close> block throws
  \<^verbatim>\<open>new Error(err.message || "Broadcast failed")\<close>. When the caught value is
  \<^verbatim>\<open>undefined\<close> or \<^verbatim>\<open>null\<close>, reading \<^verbatim>\<open>err.message\<close> throws a TypeError instead.
\<close>

definition broadcastSignedTx ::
  "env \<Rightarrow> string \<Rightarrow> BroadcastOptions \<Rightarrow> 'v registry option
     \<Rightarrow> byte list list \<times> (thrown + 'v BroadcastResult)" where
  "broadcastSignedTx e signedTxHex options messageRegistry =
     (case broadcast_try e signedTxHex messageRegistry of
        (submitted, outcome) \<Rightarrow>
          (submitted,
           try_catch outcome
             (\<lambda>err. case get_message err of
                      Inl type_error \<Rightarrow> Inl type_error
                    | Inr m \<Rightarrow> Inl (Error (or_else m ''Broadcast failed'')))))"

section \<open>Node connection manager and generic query dispatcher\<close>

text \<open>
  A member of the service object is a function or something else. A function is called
  with a request and the state of the remote node; it returns or throws, and leaves a new
  state.

  The service object has its own enumerable properties, in the order in which
  \<^verbatim>\<open>Object.keys\<close> enumerates them, and the members that a property lookup finds beyond
  them: those of the prototype chain (the methods of the class, \<^verbatim>\<open>constructor\<close>,
  \<^verbatim>\<open>toString\<close> and the rest of \<^verbatim>\<open>Object.prototype\<close>) and any own property that is not
  enumerable. \<^verbatim>\<open>service[name]\<close> looks among the own properties first.
\<close>

type_synonym ('s, 'req, 'resp) rpc_method = "'req \<Rightarrow> 's \<Rightarrow> (thrown + 'resp) \<times> 's"

datatype ('s, 'req, 'resp) member = Function "('s, 'req, 'resp) rpc_method" | NotFunction

record ('s, 'req, 'resp) service_object =
  own_enumerable :: "(string \<times> ('s, 'req, 'resp) member) list"
  inherited :: "(string \<times> ('s, 'req, 'resp) member) list"

definition get_member ::
  "('s, 'req, 'resp) service_object \<Rightarrow> string \<Rightarrow> ('s, 'req, 'resp) member option" where
  "get_member svc name =
     (case map_of (own_enumerable svc) name of
        Some m \<Rightarrow> Some m
      | None \<Rightarrow> map_of (inherited svc) name)"

definition service_keys :: "('s, 'req, 'resp) service_object \<Rightarrow> string list" where
  "service_keys svc = map fst (own_enumerable svc)"

text \<open>\<^verbatim>\<open>typeof v === 'function'\<close>, for the value of a property lookup.\<close>

fun is_function :: "('s, 'req, 'resp) member option \<Rightarrow> bool" where
  "is_function (Some (Function f)) = True"
| "is_function _ = False"

text \<open>
  The trace records what \<^verbatim>\<open>queryAny\<close> does to the outside: the opening of the
  connection, each call of the resolved function with its request, and each call of
  \<^verbatim>\<open>close\<close>.
\<close>

datatype 'req event = Open | Call 'req | Close

text \<open>
  \<^verbatim>\<open>getQueryService\<close> makes four steps, each of which may throw:
  \<^verbatim>\<open>Tendermint37Client.connect\<close>, which opens the connection, then
  \<^verbatim>\<open>new QueryClient(tm)\<close>, \<^verbatim>\<open>createProtobufRpcClient(qc)\<close> and \<^verbatim>\<open>new ServiceCtor(rpc)\<close>.
  The first three are the libraries' (\<open>Some e\<close> when they throw); the constructor is the
  caller's and throws or yields the service object. Nothing in \<^verbatim>\<open>getQueryService\<close>
  catches: a step that throws after the connection is open leaves it open. The service
  is returned with \<^verbatim>\<open>close\<close>, which disconnects and returns nothing.
\<close>

record rpc_libs =
  Tendermint37Client_connect :: "thrown option"
  new_QueryClient :: "thrown option"
  createProtobufRpcClient :: "thrown option"

definition getQueryService ::
  "rpc_libs \<Rightarrow> thrown + ('s, 'req, 'resp) service_object
     \<Rightarrow> (thrown + ('s, 'req, 'resp) service_object) \<times> 'req event list" where
  "getQueryService libs ServiceCtor =
     (case Tendermint37Client_connect libs of
        Some e \<Rightarrow> (Inl e, [])
      | None \<Rightarrow>
          (case new_QueryClient libs of
             Some e \<Rightarrow> (Inl e, [Open])
           | None \<Rightarrow>
               (case createProtobufRpcClient libs of
                  Some e \<Rightarrow> (Inl e, [Open])
                | None \<Rightarrow>
                    (case ServiceCtor of
                       Inl e \<Rightarrow> (Inl e, [Open])
                     | Inr svc \<Rightarrow> (Inr svc, [Open])))))"

text \<open>
  The \<^verbatim>\<open>for\<close> loop over the candidates: it leaves by \<^verbatim>\<open>return\<close> with a response, or runs
  to its end with \<^verbatim>\<open>lastError\<close>. The variable \<^verbatim>\<open>lastError\<close> holds a JavaScript value:
  \<^verbatim>\<open>undefined\<close> from its declaration, then whatever the last failed call threw.
\<close>

datatype 'resp loop_exit = Returned 'resp | Exhausted thrown

fun try_candidates ::
  "('s, 'req, 'resp) rpc_method \<Rightarrow> 'req list \<Rightarrow> thrown \<Rightarrow> 's
     \<Rightarrow> 'resp loop_exit \<times> 's \<times> 'req event list" where
  "try_candidates fn [] lastError s = (Exhausted lastError, s, [])"
| "try_candidates fn (req # rest) lastError s =
     (case fn req s of
        (Inr r, s') \<Rightarrow> (Returned r, s', [Call req])
      | (Inl e, s') \<Rightarrow>
          (case try_candidates fn rest e s' of
             (exit, s'', trace) \<Rightarrow> (exit, s'', Call req # trace)))"

text \<open>
  The \<^verbatim>\<open>try\<close> block of \<^verbatim>\<open>queryAny\<close>. The listing in the error message goes over
  \<^verbatim>\<open>Object.keys(service)\<close>; the last statement is
  \<^verbatim>\<open>throw lastError ?? new Error('All request candidates failed.')\<close>.
\<close>

definition available :: "('s, 'req, 'resp) service_object \<Rightarrow> string list" where
  "available svc = filter (\<lambda>k. is_function (get_member svc k)) (service_keys svc)"

definition query_try ::
  "('s, 'req, 'resp) service_object \<Rightarrow> string \<Rightarrow> 'req list \<Rightarrow> 's
     \<Rightarrow> (thrown + 'resp) \<times> 's \<times> 'req event list" where
  "query_try svc methodName reqCandidates s =
     (case get_member svc methodName of
        Some (Function fn) \<Rightarrow>
          (case try_candidates fn reqCandidates Throw_undefined s of
             (Returned r, s', trace) \<Rightarrow> (Inr r, s', trace)
           | (Exhausted lastError, s', trace) \<Rightarrow>
               (Inl (if is_nullish lastError then Error ''All request candidates failed.''
                     else lastError),
                s', trace))
      | _ \<Rightarrow>
          (Inl (Error (''Method '' @ [CHR 0x27] @ methodName @ [CHR 0x27]
                        @ '' not found. Available: '' @ join '', '' (available svc))),
           s, []))"

text \<open>
  The whole function. \<^verbatim>\<open>getQueryService\<close> is awaited before the \<^verbatim>\<open>try\<close> statement:
  when it throws, the error propagates and no \<^verbatim>\<open>finally\<close> block runs. Otherwise the
  \<^verbatim>\<open>finally\<close> block calls \<^verbatim>\<open>close\<close> after the \<^verbatim>\<open>try\<close> block has returned or thrown.
\<close>

definition queryAny ::
  "rpc_libs \<Rightarrow> thrown + ('s, 'req, 'resp) service_object \<Rightarrow> string \<Rightarrow> 'req list \<Rightarrow> 's
     \<Rightarrow> (thrown + 'resp) \<times> 's \<times> 'req event list" where
  "queryAny libs ServiceCtor methodName reqCandidates s =
     (case getQueryService libs ServiceCtor of
        (Inl e, opened) \<Rightarrow> (Inl e, s, opened)
      | (Inr svc, opened) \<Rightarrow>
          (case query_try svc methodName reqCandidates s of
             (outcome, s', trace) \<Rightarrow> (outcome, s', opened @ trace @ [Close])))"

section \<open>Notions used to state the properties\<close>

text \<open>
  \<open>fails_all fn reqs s\<close> calls \<open>fn\<close> on each request of \<open>reqs\<close> in turn, from state \<open>s\<close>:
  \<open>Some s'\<close> when every call throws, \<open>s'\<close> being the state the last call leaves, and
  \<open>None\<close> as soon as a call returns.
\<close>

fun fails_all :: "('s, 'req, 'resp) rpc_method \<Rightarrow> 'req list \<Rightarrow> 's \<Rightarrow> 's option" where
  "fails_all fn [] s = Some s"
| "fails_all fn (req # rest) s =
     (case fn req s of (Inl e, s') \<Rightarrow> fails_all fn rest s' | (Inr r, s') \<Rightarrow> None)"

text \<open>
  The object whose properties, in enumeration order, are the pairs \<open>kvs\<close>, each key
  written in decimal.
\<close>

definition decimal_object :: "(nat \<times> int) list \<Rightarrow> js_object" where
  "decimal_object kvs = map (\<lambda>(k, v). (ToString k, v)) kvs"

subsection \<open>Sample collaborators\<close>

text \<open>
  A node whose \<^verbatim>\<open>broadcastTx\<close> answers every transaction with the same result, reached
  through a library that loads and a connection that opens.
\<close>

definition client_returning :: "tx_result \<Rightarrow> client" where
  "client_returning result txBytes = Inr result"

definition env_of_client :: "client \<Rightarrow> env" where
  "env_of_client c =
     \<lparr>importStargate = None, COSMOS_RPC_URL = Undefined, connect = (\<lambda>rpcUrl. Inr c)\<rparr>"

definition bare_result :: tx_result where
  "bare_result =
     \<lparr>code = 0, rawLog = Undefined, transactionHash = None, txhash = None, hash = None,
      msgResponses = None\<rparr>"

definition upload_options :: BroadcastOptions where
  "upload_options =
     \<lparr>service = ''upload-service'', action = ''/elandnode.reg.v1.MsgRegisterLandRegistry''\<rparr>"

text \<open>
  A registry with two decoders. The first throws an \<^verbatim>\<open>Error\<close> on an empty payload and
  otherwise returns the payload's length; the second throws \<^verbatim>\<open>null\<close>.
\<close>

definition length_decoder :: "nat decoder" where
  "length_decoder data = (if data = [] then Inl (Error ''premature EOF'') else Inr (length data))"

definition null_throwing_decoder :: "nat decoder" where
  "null_throwing_decoder data = Inl Throw_null"

definition sample_registry :: "nat registry" where
  "sample_registry =
     [''/elandnode.reg.v1.MsgRegisterLandRegistryResponse'' \<mapsto> length_decoder,
      ''/elandnode.reg.v1.MsgFaulty'' \<mapsto> null_throwing_decoder]"

text \<open>
  Libraries that connect and build their clients, and a query service as the protocol
  compiler generates it: two data properties and two methods bound to the instance, over
  a prototype that holds the same methods, the constructor and \<^verbatim>\<open>toString\<close>.
  \<^verbatim>\<open>GetRegistry\<close> accepts only the request 1, and \<^verbatim>\<open>Ping\<close> rejects with no reason
  (\<^verbatim>\<open>Promise.reject()\<close>); each call of a method advances the node's state, a counter.
\<close>

definition working_libs :: rpc_libs where
  "working_libs =
     \<lparr>Tendermint37Client_connect = None, new_QueryClient = None,
      createProtobufRpcClient = None\<rparr>"

definition GetRegistry :: "(nat, nat, string) rpc_method" where
  "GetRegistry req s =
     (if req = 1 then Inr ''registry'' else Inl (Error (''bad request '' @ ToString req)), Suc s)"

definition Params :: "(nat, nat, string) rpc_method" where
  "Params req s = (Inr ''params'', Suc s)"

definition Ping :: "(nat, nat, string) rpc_method" where
  "Ping req s = (Inl Throw_undefined, Suc s)"

definition Object_toString :: "(nat, nat, string) rpc_method" where
  "Object_toString req s = (Inr ''[object Object]'', s)"

definition class_constructor :: "(nat, nat, string) rpc_method" where
  "class_constructor req s =
     (Inl (Error (''Class constructor QueryClientImpl cannot be invoked without ''
                  @ [CHR 0x27] @ ''new'' @ [CHR 0x27])), s)"

definition QueryRegClient :: "(nat, nat, string) service_object" where
  "QueryRegClient =
     \<lparr>own_enumerable =
        [(''service'', NotFunction), (''rpc'', NotFunction),
         (''GetRegistry'', Function GetRegistry), (''Params'', Function Params)],
      inherited =
        [(''constructor'', Function class_constructor),
         (''GetRegistry'', Function GetRegistry), (''Params'', Function Params),
         (''toString'', Function Object_toString)]\<rparr>"

definition PingClient :: "(nat, nat, string) service_object" where
  "PingClient = \<lparr>own_enumerable = [(''Ping'', Function Ping)], inherited = []\<rparr>"

section \<open>Evaluation of decimal digits\<close>

declare ToString.simps [simp del]

lemmas digit_simps = ToString.simps digit_char_def char_of_def bit_Suc_0_iff

section \<open>Properties of the wire codec\<close>

lemma Buffer_from_hex_stops:
  "hex_pairs p \<Longrightarrow> stops_decoding t \<Longrightarrow> Buffer_from_hex (p @ t) = Buffer_from_hex p"
proof (induction p rule: hex_pairs.induct)
  case 1
  then show ?case
    by (cases t rule: stops_decoding.cases) (auto simp: is_hex_def split: option.splits)
qed (auto simp: is_hex_def)

lemma length_Buffer_from_hex:
  "hex_pairs p \<Longrightarrow> length (Buffer_from_hex p) = length p div 2"
  by (induction p rule: hex_pairs.induct) (auto simp: is_hex_def)

lemma hex_decomposition:
  "\<exists>p t. s = p @ t \<and> hex_pairs p \<and> stops_decoding t"
proof (induction s rule: hex_pairs.induct)
  case 1
  show ?case by (rule exI [of _ "[]"]) simp
next
  case (2 c)
  show ?case by (rule exI [of _ "[]"]) simp
next
  case (3 c1 c2 rest)
  show ?case
  proof (cases "is_hex c1 \<and> is_hex c2")
    case True
    from 3 obtain p t where "rest = p @ t" "hex_pairs p" "stops_decoding t" by blast
    with True
    have "c1 # c2 # rest = (c1 # c2 # p) @ t \<and> hex_pairs (c1 # c2 # p) \<and> stops_decoding t"
      by simp
    then show ?thesis by blast
  next
    case False
    then have "c1 # c2 # rest = [] @ (c1 # c2 # rest) \<and> hex_pairs []
                 \<and> stops_decoding (c1 # c2 # rest)"
      by auto
    then show ?thesis by blast
  qed
qed

lemma Number_snoc: "Number (s @ [c]) = 10 * Number s + (of_char c - 48)"
  by (simp add: Number_def)

lemma Number_ToString: "Number (ToString n) = n"
proof (induction n rule: ToString.induct)
  case (1 n)
  show ?case
  proof (cases "n div 10 = 0")
    case True
    then have "n < 10" by simp
    with True show ?thesis
      by (subst ToString.simps) (simp add: Number_def digit_char_def of_char_of)
  next
    case False
    have d: "of_char (digit_char (n mod 10)) = 48 + n mod 10"
      by (simp add: digit_char_def of_char_of)
    from False 1 have "Number (ToString (n div 10)) = n div 10" by simp
    with False d show ?thesis
      by (subst ToString.simps) (simp add: Number_snoc)
  qed
qed

lemma ToString_eq_iff: "ToString m = ToString n \<longleftrightarrow> m = n"
  by (metis Number_ToString)

lemma keys_decimal_object:
  "map Number (map fst (decimal_object kvs)) = map fst kvs"
  by (induction kvs) (auto simp: decimal_object_def Number_ToString)

lemma map_of_decimal_object:
  "map_of (decimal_object kvs) (ToString k) = map_of kvs k"
  by (induction kvs) (auto simp: decimal_object_def ToString_eq_iff)

lemma sort_keys: "sort (map fst kvs) = map fst (sort_key fst kvs)"
  by (rule properties_for_sort) simp_all

lemma lookup_each:
  assumes "distinct (map fst kvs)"
  shows "map (\<lambda>key. ToUint8 (map_of kvs key)) (map fst (sort_key fst kvs))
           = map (\<lambda>(k, v). word_of_int v) (sort_key fst kvs)"
proof -
  have "ToUint8 (map_of kvs (fst p)) = (\<lambda>(k, v). word_of_int v) p" if "p \<in> set kvs" for p
  proof -
    obtain k v where p: "p = (k, v)" by (cases p)
    with that assms have "map_of kvs k = Some v" by (simp add: map_of_is_SomeI)
    with p show ?thesis by (simp add: ToUint8_def)
  qed
  then show ?thesis by (simp add: comp_def)
qed

text \<open>
  C7. \<^verbatim>\<open>decimalBytesToUint8Array\<close> orders the keys of its argument by their numeric value:
  on an object whose keys are distinct indices written in decimal (below \<open>2 ^ 53\<close>, where
  \<^verbatim>\<open>Number\<close> is exact), whatever the order in which the object enumerates them, the bytes
  of the result are the values taken in increasing order of the numeric key, each modulo
  256. So the value at key \<^verbatim>\<open>10\<close> comes after the value at key \<^verbatim>\<open>9\<close>.
\<close>

theorem decimalBytesToUint8Array_numeric_order:
  assumes "distinct (map fst kvs)" and "\<forall>k \<in> set (map fst kvs). k < 2 ^ 53"
  shows "decimalBytesToUint8Array (Some (decimal_object kvs))
           = Inr (map (\<lambda>(k, v). word_of_int v) (sort_key fst kvs))"
proof -
  have keys: "sort (map Number (map fst (decimal_object kvs))) = map fst (sort_key fst kvs)"
    by (simp only: keys_decimal_object sort_keys)
  have look: "(\<lambda>key. ToUint8 (get_index (Some (decimal_object kvs)) key))
                = (\<lambda>key. ToUint8 (map_of kvs key))"
    by (simp add: get_index_def map_of_decimal_object)
  have "decimalBytesToUint8Array (Some (decimal_object kvs))
          = Inr (map (\<lambda>key. ToUint8 (get_index (Some (decimal_object kvs)) key))
                     (sort (map Number (map fst (decimal_object kvs)))))"
    by (simp add: decimalBytesToUint8Array_def Object_keys_def del: map_map)
  also have "\<dots> = Inr (map (\<lambda>(k, v). word_of_int v) (sort_key fst kvs))"
    by (simp only: keys look lookup_each [OF assms(1)])
  finally show ?thesis .
qed

text \<open>
  The object \<^verbatim>\<open>{"0":1, "1":2, ..., "10":11}\<close>, its keys enumerated in lexical order
  (\<^verbatim>\<open>"10"\<close> before \<^verbatim>\<open>"2"\<close>), is rebuilt as the eleven bytes 1 to 11.
\<close>

theorem decimalBytesToUint8Array_numeric_order_witness:
  "distinct (map fst [(0::nat, 1::int), (1, 2), (10, 11), (2, 3), (3, 4), (4, 5), (5, 6),
                      (6, 7), (7, 8), (8, 9), (9, 10)])
   \<and> decimalBytesToUint8Array
        (Some [(''0'', 1), (''1'', 2), (''10'', 11), (''2'', 3), (''3'', 4), (''4'', 5),
               (''5'', 6), (''6'', 7), (''7'', 8), (''8'', 9), (''9'', 10)])
       = Inr [1, 2, 3, 4, 5, 6, 7, 8, 9, 10, 11]
   \<and> length [1, 2, 3, 4, 5, 6, 7, 8, 9, 10, 11 :: byte] = 11
   \<and> [1, 2, 3, 4, 5, 6, 7, 8, 9, 10, 11 :: byte] ! 10 = 11"
  using decimalBytesToUint8Array_numeric_order
          [of "[(0, 1), (1, 2), (10, 11), (2, 3), (3, 4), (4, 5), (5, 6), (6, 7), (7, 8),
                (8, 9), (9, 10)]"]
  by (simp add: decimal_object_def digit_simps)

section \<open>Properties of response decoding\<close>

lemma get_message_raises_object: "get_message e = Inl t \<Longrightarrow> \<exists>m. t = Thrown m"
  by (cases e) (auto simp: cannot_read_message_def)

lemma decodeProtobufMessage_raises_object:
  "decodeProtobufMessage url messageBytes messageRegistry = Inl t \<Longrightarrow> \<exists>m. t = Thrown m"
  by (auto simp: decodeProtobufMessage_def try_catch_def
           dest: get_message_raises_object split: option.splits sum.splits)

lemma decimalBytesToUint8Array_raises_object:
  "decimalBytesToUint8Array obj = Inl t \<Longrightarrow> \<exists>m. t = Thrown m"
  by (auto simp: decimalBytesToUint8Array_def Object_keys_def Let_def
           split: option.splits sum.splits)

text \<open>
  Where the decoder does not throw \<^verbatim>\<open>undefined\<close> or \<^verbatim>\<open>null\<close>,
  \<^verbatim>\<open>decodeProtobufMessage\<close> returns: the placeholder for an unknown type, the placeholder
  with the message of what the decoder threw, or the decoder's value.
\<close>

lemma decodeProtobufMessage_placeholders:
  "(messageRegistry url = None \<longrightarrow>
      decodeProtobufMessage url messageBytes messageRegistry
        = Inr (Placeholder (''Unknown message type: '' @ url) (map unat messageBytes)))
   \<and> (\<forall>decoder m. messageRegistry url = Some decoder \<and> decoder messageBytes = Inl (Thrown m) \<longrightarrow>
        decodeProtobufMessage url messageBytes messageRegistry
          = Inr (Placeholder (''Failed to decode: '' @ template m) (map unat messageBytes)))
   \<and> (\<forall>decoder v. messageRegistry url = Some decoder \<and> decoder messageBytes = Inr v \<longrightarrow>
        decodeProtobufMessage url messageBytes messageRegistry = Inr (Value v))"
  by (auto simp: decodeProtobufMessage_def try_catch_def Array_from_def)

text \<open>
  C2. The claim is that \<^verbatim>\<open>decodeProtobufMessage\<close> never throws. The \<^verbatim>\<open>catch\<close> block
  is there to turn whatever the decoder throws into a placeholder, but it reads
  \<^verbatim>\<open>error.message\<close> unguarded: with a registered decoder that throws \<^verbatim>\<open>null\<close>, the
  function throws a TypeError instead of returning the placeholder.
\<close>

theorem decodeProtobufMessage_throws_on_null:
  "sample_registry ''/elandnode.reg.v1.MsgFaulty'' = Some null_throwing_decoder
   \<and> null_throwing_decoder [1] = Inl Throw_null
   \<and> decodeProtobufMessage ''/elandnode.reg.v1.MsgFaulty'' [1] sample_registry
       = Inl (Error (''Cannot read properties of null (reading '' @ [CHR 0x27] @ ''message''
                     @ [CHR 0x27] @ '')''))"
  by (simp add: decodeProtobufMessage_def sample_registry_def null_throwing_decoder_def
        try_catch_def cannot_read_message_def)

lemma decode_msgResponse_returns: "\<exists>m. decode_msgResponse reg msgResponse = Inr m"
proof (cases "decimalBytesToUint8Array (msg_value msgResponse)")
  case (Inl t)
  then obtain m where "t = Thrown m"
    using decimalBytesToUint8Array_raises_object by blast
  with Inl show ?thesis
    by (simp add: decode_msgResponse_def try_catch_def)
next
  case bytes: (Inr messageBytes)
  show ?thesis
  proof (cases "decodeProtobufMessage (msg_typeUrl msgResponse) messageBytes reg")
    case (Inl t)
    then obtain m where "t = Thrown m"
      using decodeProtobufMessage_raises_object by blast
    with Inl bytes show ?thesis
      by (simp add: decode_msgResponse_def try_catch_def)
  next
    case (Inr dv)
    with bytes show ?thesis
      by (simp add: decode_msgResponse_def try_catch_def)
  qed
qed

lemma decode_each_returns: "\<exists>ms. decode_each reg xs acc = Inr ms"
proof (induction xs arbitrary: acc)
  case Nil
  show ?case by simp
next
  case (Cons x xs)
  obtain m where "decode_msgResponse reg x = Inr m"
    using decode_msgResponse_returns by blast
  with Cons show ?case by simp
qed

lemma extractAndDecodeMessages_returns: "\<exists>ms. extractAndDecodeMessages result reg = Inr ms"
  by (simp add: extractAndDecodeMessages_def decode_each_returns split: option.splits)

section \<open>Properties of the broadcast pipeline\<close>

lemma or_else_nonempty: "d \<noteq> [] \<Longrightarrow> or_else a d \<noteq> []"
  by (cases a) simp_all

lemma rethrown_message:
  assumes "(case get_message err of
              Inl type_error \<Rightarrow> Inl type_error
            | Inr m \<Rightarrow> Inl (Error (or_else m ''Broadcast failed''))) = outcome"
  shows "\<exists>msg. outcome = Inl (Error msg) \<and> msg \<noteq> []"
proof (cases err)
  case Throw_undefined
  with assms have "outcome = Inl (cannot_read_message ''undefined'')"
    by simp
  then show ?thesis
    by (simp add: cannot_read_message_def)
next
  case Throw_null
  with assms have "outcome = Inl (cannot_read_message ''null'')"
    by simp
  then show ?thesis
    by (simp add: cannot_read_message_def)
next
  case (Thrown m)
  with assms have "outcome = Inl (Error (or_else m ''Broadcast failed''))"
    by simp
  then show ?thesis
    by (simp add: or_else_nonempty)
qed

lemma snd_broadcastSignedTx:
  "snd (broadcastSignedTx e signedTxHex options messageRegistry)
     = (case snd (broadcast_try e signedTxHex messageRegistry) of
          Inl err \<Rightarrow>
            (case get_message err of
               Inl type_error \<Rightarrow> Inl type_error
             | Inr m \<Rightarrow> Inl (Error (or_else m ''Broadcast failed'')))
        | Inr r \<Rightarrow> Inr r)"
proof -
  obtain submitted outcome where
    "broadcast_try e signedTxHex messageRegistry = (submitted, outcome)"
    by (cases "broadcast_try e signedTxHex messageRegistry")
  then show ?thesis
    by (cases outcome) (simp_all add: broadcastSignedTx_def try_catch_def)
qed

lemma submitted_bytes:
  assumes "signedTxHex \<noteq> []" and "importStargate e = None"
    and "connect e (rpc_url e) = Inr client"
  shows "fst (broadcastSignedTx e signedTxHex options messageRegistry)
           = [Buffer_from_hex (replace_0x signedTxHex)]"
  using assms
  by (simp add: broadcastSignedTx_def broadcast_try_def Let_def
           split: prod.splits sum.splits option.splits)

lemma sample_env:
  "importStargate (env_of_client c) = None"
  "connect (env_of_client c) (rpc_url (env_of_client c)) = Inr c"
  by (simp_all add: env_of_client_def)

lemma broadcast_try_returns:
  assumes "snd (broadcast_try e signedTxHex messageRegistry) = Inr r"
  shows "success r
      \<and> (\<exists>client result. connect e (rpc_url e) = Inr client
            \<and> client (Buffer_from_hex (replace_0x signedTxHex)) = Inr result
            \<and> code result = 0 \<and> responses r = Some result)
      \<and> txHash r \<noteq> None
      \<and> (decodedMessages r = None \<longleftrightarrow> messageRegistry = None)"
proof (cases "signedTxHex = []")
  case True
  with assms show ?thesis by (simp add: broadcast_try_def)
next
  case ne: False
  show ?thesis
  proof (cases "importStargate e")
    case (Some err)
    with assms ne show ?thesis by (simp add: broadcast_try_def)
  next
    case imp: None
    show ?thesis
    proof (cases "connect e (rpc_url e)")
      case (Inl err)
      with assms ne imp show ?thesis by (simp add: broadcast_try_def)
    next
      case con: (Inr client)
      show ?thesis
      proof (cases "client (Buffer_from_hex (replace_0x signedTxHex))")
        case (Inl err)
        with assms ne imp con show ?thesis by (simp add: broadcast_try_def)
      next
        case res: (Inr result)
        show ?thesis
        proof (cases "code result = 0")
          case False
          with assms ne imp con res show ?thesis by (simp add: broadcast_try_def)
        next
          case ok: True
          have h: "nullish (transactionHash result)
                     (nullish (txhash result) (nullish (hash result) (Some []))) \<noteq> None"
            by (simp add: nullish_def split: option.splits)
          show ?thesis
          proof (cases messageRegistry)
            case None
            with assms ne imp con res ok h show ?thesis
              by (auto simp: broadcast_try_def)
          next
            case (Some reg)
            obtain ms where "extractAndDecodeMessages result reg = Inr ms"
              using extractAndDecodeMessages_returns by blast
            with Some assms ne imp con res ok h show ?thesis
              by (auto simp: broadcast_try_def)
          qed
        qed
      qed
    qed
  qed
qed

text \<open>
  C1, as the code has it. \<^verbatim>\<open>broadcastSignedTx\<close> does not check the hex string. For
  every non-empty input, once the library is loaded and the client connected, exactly one
  byte sequence is submitted to the node: the decoding of what is left after one leading
  \<^verbatim>\<open>0x\<close> is removed. That string splits into complete pairs of hex digits \<open>p\<close> followed by
  a rest \<open>t\<close> that is empty, one character, or starts with a pair holding a character that
  is not a hex digit; the submitted bytes are those of \<open>p\<close> alone, one byte for each pair,
  and \<open>t\<close> is dropped without an error.
\<close>

theorem broadcastSignedTx_truncates_hex:
  assumes "signedTxHex \<noteq> []" and "importStargate e = None"
    and "connect e (rpc_url e) = Inr client"
  shows "fst (broadcastSignedTx e signedTxHex options messageRegistry)
           = [Buffer_from_hex (replace_0x signedTxHex)]
       \<and> (\<exists>p t. replace_0x signedTxHex = p @ t \<and> hex_pairs p \<and> stops_decoding t)
       \<and> (\<forall>p t. replace_0x signedTxHex = p @ t \<and> hex_pairs p \<and> stops_decoding t \<longrightarrow>
              Buffer_from_hex (replace_0x signedTxHex) = Buffer_from_hex p
            \<and> length (Buffer_from_hex p) = length p div 2)"
  using submitted_bytes [OF assms] hex_decomposition [of "replace_0x signedTxHex"]
  by (auto simp: Buffer_from_hex_stops length_Buffer_from_hex)

theorem broadcastSignedTx_truncates_hex_witness:
  "''0x1ag123'' \<noteq> []
   \<and> importStargate (env_of_client (client_returning bare_result)) = None
   \<and> connect (env_of_client (client_returning bare_result))
        (rpc_url (env_of_client (client_returning bare_result)))
       = Inr (client_returning bare_result)
   \<and> replace_0x ''0x1ag123'' = ''1a'' @ ''g123''
   \<and> hex_pairs ''1a'' \<and> stops_decoding ''g123''
   \<and> fst (broadcastSignedTx (env_of_client (client_returning bare_result)) ''0x1ag123''
            upload_options (Some sample_registry))
       = [[0x1a]]"
proof -
  have r: "replace_0x ''0x1ag123'' = ''1a'' @ ''g123''"
    by simp
  have p: "hex_pairs ''1a''"
    by (simp add: is_hex_def unhex_def)
  have t: "stops_decoding ''g123''"
    by (simp add: is_hex_def unhex_def)
  have b: "Buffer_from_hex ''1a'' = [0x1a]"
    by (simp add: unhex_def)
  from broadcastSignedTx_truncates_hex
         [of "''0x1ag123''" "env_of_client (client_returning bare_result)"
             "client_returning bare_result" upload_options "Some sample_registry"]
       sample_env [of "client_returning bare_result"] r p t b
  show ?thesis by (metis list.distinct(1))
qed

text \<open>
  The claim as the specification states it fails. \<^verbatim>\<open>abc\<close> has odd length and
  \<^verbatim>\<open>1ag123\<close> holds a character that is not a hex digit; on both \<^verbatim>\<open>broadcastSignedTx\<close>
  submits the bytes decoded from the longest prefix of complete hex pairs, and returns
  the node's acceptance.
\<close>

theorem broadcastSignedTx_malformed_hex_counterexample:
  "odd (length (replace_0x ''abc''))
   \<and> broadcastSignedTx (env_of_client (client_returning bare_result)) ''abc'' upload_options
        (None :: nat registry option)
     = ([[0xab]],
        Inr \<lparr>success = True, txHash = Some [], decodedMessages = None,
             responses = Some bare_result\<rparr>)
   \<and> \<not> is_hex (CHR ''g'')
   \<and> broadcastSignedTx (env_of_client (client_returning bare_result)) ''1ag123'' upload_options
        (None :: nat registry option)
     = ([[0x1a]],
        Inr \<lparr>success = True, txHash = Some [], decodedMessages = None,
             responses = Some bare_result\<rparr>)"
  by (simp add: broadcastSignedTx_def broadcast_try_def env_of_client_def client_returning_def
        bare_result_def rpc_url_def  nullish_def try_catch_def unhex_def is_hex_def)

text \<open>
  C8. When the node answers with code 0, \<^verbatim>\<open>broadcastSignedTx\<close> returns, and the
  \<^verbatim>\<open>txHash\<close> of its result is the first value present among the fields
  \<^verbatim>\<open>transactionHash\<close>, \<^verbatim>\<open>txhash\<close> and \<^verbatim>\<open>hash\<close> of the node's result, looked at in this
  order; when the three are missing it is the empty string, and the call still returns.
\<close>

theorem broadcastSignedTx_txHash:
  assumes "signedTxHex \<noteq> []" and "importStargate e = None"
    and "connect e (rpc_url e) = Inr client"
    and "client (Buffer_from_hex (replace_0x signedTxHex)) = Inr result"
    and "code result = 0"
  shows "\<exists>r. snd (broadcastSignedTx e signedTxHex options messageRegistry) = Inr r
          \<and> txHash r
              = Some (case transactionHash result of
                        Some h \<Rightarrow> h
                      | None \<Rightarrow> (case txhash result of
                                   Some h \<Rightarrow> h
                                 | None \<Rightarrow> (case hash result of Some h \<Rightarrow> h | None \<Rightarrow> [])))
          \<and> (transactionHash result = None \<and> txhash result = None \<and> hash result = None
                \<longrightarrow> txHash r = Some [])"
proof (cases messageRegistry)
  case None
  with assms show ?thesis
    by (simp add: broadcastSignedTx_def broadcast_try_def Let_def try_catch_def nullish_def
           split: option.splits)
next
  case (Some reg)
  obtain ms where "extractAndDecodeMessages result reg = Inr ms"
    using extractAndDecodeMessages_returns by blast
  with Some assms show ?thesis
    by (simp add: broadcastSignedTx_def broadcast_try_def Let_def try_catch_def nullish_def
           split: option.splits)
qed

theorem broadcastSignedTx_txHash_witness:
  "''0a8f'' \<noteq> []
   \<and> importStargate (env_of_client (client_returning (bare_result\<lparr>txhash := Some ''A1B2'',
                                                              hash := Some ''C3D4''\<rparr>))) = None
   \<and> code (bare_result\<lparr>txhash := Some ''A1B2'', hash := Some ''C3D4''\<rparr>) = 0
   \<and> (\<exists>r. snd (broadcastSignedTx
                 (env_of_client (client_returning (bare_result\<lparr>txhash := Some ''A1B2'',
                                                                hash := Some ''C3D4''\<rparr>)))
                 ''0a8f'' upload_options (Some sample_registry)) = Inr r
          \<and> txHash r = Some ''A1B2'')
   \<and> code bare_result = 0
   \<and> transactionHash bare_result = None \<and> txhash bare_result = None \<and> hash bare_result = None
   \<and> (\<exists>r. snd (broadcastSignedTx (env_of_client (client_returning bare_result))
                 ''0a8f'' upload_options (Some sample_registry)) = Inr r
          \<and> txHash r = Some [])"
proof -
  let ?R = "bare_result\<lparr>txhash := Some ''A1B2'', hash := Some ''C3D4''\<rparr>"
  have c: "client_returning res (Buffer_from_hex (replace_0x ''0a8f'')) = Inr res" for res
    by (simp add: client_returning_def)
  have z: "code ?R = 0" "code bare_result = 0"
    "transactionHash bare_result = None" "txhash bare_result = None" "hash bare_result = None"
    by (simp_all add: bare_result_def)
  have ne: "''0a8f'' \<noteq> []"
    by simp
  note w1 = broadcastSignedTx_txHash
              [where signedTxHex = "''0a8f''" and e = "env_of_client (client_returning ?R)"
                 and client = "client_returning ?R" and result = ?R
                 and options = upload_options and messageRegistry = "Some sample_registry"]
  note w2 = broadcastSignedTx_txHash
              [where signedTxHex = "''0a8f''"
                 and e = "env_of_client (client_returning bare_result)"
                 and client = "client_returning bare_result" and result = bare_result
                 and options = upload_options and messageRegistry = "Some sample_registry"]
  from w1 [OF ne sample_env c z(1)] w2 [OF ne sample_env c z(2)] sample_env z
  show ?thesis by (simp add: bare_result_def)
qed

text \<open>
  C9. Every result that \<^verbatim>\<open>broadcastSignedTx\<close> returns has \<^verbatim>\<open>success\<close> true, has as
  \<^verbatim>\<open>responses\<close> the result that the node gave to the submitted bytes, with code 0, has a
  \<^verbatim>\<open>txHash\<close>, and has \<^verbatim>\<open>decodedMessages\<close> exactly when a registry was passed. Everything
  else the function does is to throw an \<^verbatim>\<open>Error\<close> whose message is not empty.
\<close>

theorem broadcastSignedTx_result_invariant:
  "(\<forall>r. snd (broadcastSignedTx e signedTxHex options messageRegistry) = Inr r \<longrightarrow>
        success r
      \<and> (\<exists>client result. connect e (rpc_url e) = Inr client
            \<and> client (Buffer_from_hex (replace_0x signedTxHex)) = Inr result
            \<and> code result = 0 \<and> responses r = Some result)
      \<and> txHash r \<noteq> None
      \<and> (decodedMessages r = None \<longleftrightarrow> messageRegistry = None))
   \<and> (\<forall>err. snd (broadcastSignedTx e signedTxHex options messageRegistry) = Inl err \<longrightarrow>
        (\<exists>msg. err = Error msg \<and> msg \<noteq> []))"
proof (cases "snd (broadcast_try e signedTxHex messageRegistry)")
  case (Inl err)
  then have "(case get_message err of
                Inl type_error \<Rightarrow> Inl type_error
              | Inr m \<Rightarrow> Inl (Error (or_else m ''Broadcast failed'')))
               = snd (broadcastSignedTx e signedTxHex options messageRegistry)"
    by (simp add: snd_broadcastSignedTx)
  from rethrown_message [OF this] show ?thesis
    by auto
next
  case (Inr r)
  then have "snd (broadcastSignedTx e signedTxHex options messageRegistry) = Inr r"
    by (simp add: snd_broadcastSignedTx)
  with broadcast_try_returns [OF Inr] show ?thesis by simp
qed

theorem broadcastSignedTx_result_invariant_witness:
  "snd (broadcastSignedTx (env_of_client (client_returning bare_result)) ''0a8f'' upload_options
          (None :: nat registry option))
     = Inr \<lparr>success = True, txHash = Some [], decodedMessages = None,
            responses = Some bare_result\<rparr>
   \<and> success \<lparr>success = True, txHash = Some [], decodedMessages = (None :: nat DecodedMessage list option),
               responses = Some bare_result\<rparr>
   \<and> snd (broadcastSignedTx
            (env_of_client (client_returning (bare_result\<lparr>code := 5,
                                                           rawLog := Text ''insufficient funds''\<rparr>)))
            ''0a8f'' upload_options (None :: nat registry option))
     = Inl (Error ''Broadcast failed (code 5): insufficient funds'')
   \<and> ''Broadcast failed (code 5): insufficient funds'' \<noteq> []"
proof -
  have a: "snd (broadcastSignedTx (env_of_client (client_returning bare_result)) ''0a8f''
                  upload_options (None :: nat registry option))
             = Inr \<lparr>success = True, txHash = Some [], decodedMessages = None,
                    responses = Some bare_result\<rparr>"
    by (simp add: broadcastSignedTx_def broadcast_try_def env_of_client_def client_returning_def
          bare_result_def rpc_url_def  nullish_def try_catch_def)
  have b: "snd (broadcastSignedTx
                  (env_of_client (client_returning (bare_result\<lparr>code := 5,
                                                                 rawLog := Text ''insufficient funds''\<rparr>)))
                  ''0a8f'' upload_options (None :: nat registry option))
             = Inl (Error ''Broadcast failed (code 5): insufficient funds'')"
    by (simp add: broadcastSignedTx_def broadcast_try_def env_of_client_def client_returning_def
          bare_result_def rpc_url_def  try_catch_def ToString_int_def
          digit_simps)
  from broadcastSignedTx_result_invariant
         [of "env_of_client (client_returning bare_result)" "''0a8f''" upload_options
             "None :: nat registry option"]
       broadcastSignedTx_result_invariant
         [of "env_of_client (client_returning (bare_result\<lparr>code := 5,
                                                             rawLog := Text ''insufficient funds''\<rparr>))"
             "''0a8f''" upload_options "None :: nat registry option"]
       a b
  show ?thesis by simp
qed

text \<open>
  C10. The prefix is removed only when it is the lowercase \<^verbatim>\<open>0x\<close>, and only once. An
  input that starts with \<^verbatim>\<open>0X\<close> reaches the hex decoder unchanged; the decoder stops at
  once, at \<^verbatim>\<open>X\<close>, and yields no byte, which is not the decoding of what follows the
  prefix whenever that decoding has a byte. No error is raised: once the library is
  loaded and the client connected, the empty byte sequence is submitted to the node.
\<close>

theorem broadcastSignedTx_uppercase_prefix:
  "replace_0x (''0X'' @ rest) = ''0X'' @ rest
   \<and> Buffer_from_hex (replace_0x (''0X'' @ rest)) = []
   \<and> (Buffer_from_hex rest \<noteq> [] \<longrightarrow>
        Buffer_from_hex (replace_0x (''0X'' @ rest)) \<noteq> Buffer_from_hex rest)
   \<and> (importStargate e = None \<and> connect e (rpc_url e) = Inr client \<longrightarrow>
        fst (broadcastSignedTx e (''0X'' @ rest) options messageRegistry) = [[]])
   \<and> replace_0x (''0x'' @ rest) = rest"
  by (auto simp: broadcastSignedTx_def broadcast_try_def Let_def unhex_def
           split: option.splits sum.splits prod.splits)

theorem broadcastSignedTx_uppercase_prefix_witness:
  "Buffer_from_hex ''0a8f'' = [0x0a, 0x8f]
   \<and> Buffer_from_hex (replace_0x ''0X0a8f'') = []
   \<and> Buffer_from_hex (replace_0x ''0x0a8f'') = [0x0a, 0x8f]
   \<and> importStargate (env_of_client (client_returning bare_result)) = None
   \<and> fst (broadcastSignedTx (env_of_client (client_returning bare_result)) ''0X0a8f''
            upload_options (Some sample_registry))
       = [[]]"
proof -
  have b: "Buffer_from_hex ''0a8f'' = [0x0a, 0x8f]"
    by (simp add: unhex_def)
  from broadcastSignedTx_uppercase_prefix
         [of "''0a8f''" "env_of_client (client_returning bare_result)"
             "client_returning bare_result" upload_options "Some sample_registry"]
       sample_env [of "client_returning bare_result"] b
  show ?thesis by simp
qed

section \<open>Properties of the generic query dispatcher\<close>

lemma try_candidates_no_close:
  "try_candidates fn cands le s = (exit, s', tr) \<Longrightarrow> Close \<notin> set tr \<and> Open \<notin> set tr"
  by (induction cands arbitrary: le s exit s' tr) (auto split: prod.splits sum.splits)

lemma try_candidates_first_success:
  "fails_all fn pre s = Some s1 \<Longrightarrow> fn c s1 = (Inr r, s2) \<Longrightarrow>
   try_candidates fn (pre @ c # post) le s = (Returned r, s2, map Call pre @ [Call c])"
  by (induction pre arbitrary: le s) (auto split: prod.splits sum.splits)

lemma try_candidates_last_error:
  "fails_all fn pre s = Some s1 \<Longrightarrow> fn c s1 = (Inl e, s2) \<Longrightarrow>
   try_candidates fn (pre @ [c]) le s = (Exhausted e, s2, map Call (pre @ [c]))"
  by (induction pre arbitrary: le s) (auto split: prod.splits sum.splits)

lemma try_candidates_prefix:
  "\<exists>k \<le> length cands. snd (snd (try_candidates fn cands le s)) = map Call (take k cands)"
proof (induction cands arbitrary: le s)
  case Nil
  show ?case by simp
next
  case (Cons req rest)
  obtain out s' where call: "fn req s = (out, s')"
    by (cases "fn req s")
  show ?case
  proof (cases out)
    case (Inr r)
    with call have "snd (snd (try_candidates fn (req # rest) le s)) = map Call (take 1 (req # rest))"
      by simp
    then show ?thesis
      by (intro exI [of _ 1]) simp
  next
    case (Inl e)
    from Cons [of e s'] obtain k where
      k: "k \<le> length rest" "snd (snd (try_candidates fn rest e s')) = map Call (take k rest)"
      by blast
    with call Inl
    have "snd (snd (try_candidates fn (req # rest) le s)) = map Call (take (Suc k) (req # rest))"
      by (cases "try_candidates fn rest e s'") auto
    with k(1) show ?thesis
      by (intro exI [of _ "Suc k"]) simp
  qed
qed

lemma getQueryService_returns:
  "fst (getQueryService libs ServiceCtor) = Inr svc \<Longrightarrow>
   getQueryService libs ServiceCtor = (Inr svc, [Open])"
  by (auto simp: getQueryService_def split: option.splits sum.splits)

lemma own_member:
  "k \<in> set (service_keys svc) \<Longrightarrow> get_member svc k = map_of (own_enumerable svc) k"
proof -
  assume "k \<in> set (service_keys svc)"
  then have "map_of (own_enumerable svc) k \<noteq> None"
    by (simp add: service_keys_def map_of_eq_None_iff)
  then show ?thesis
    by (auto simp: get_member_def)
qed

lemma available_own:
  "available svc
     = filter (\<lambda>k. is_function (map_of (own_enumerable svc) k)) (map fst (own_enumerable svc))"
proof -
  have "filter (\<lambda>k. is_function (get_member svc k)) (service_keys svc)
          = filter (\<lambda>k. is_function (map_of (own_enumerable svc) k)) (service_keys svc)"
    by (rule filter_cong) (simp_all add: own_member)
  then show ?thesis
    by (simp add: available_def service_keys_def)
qed

lemma set_available:
  "set (available svc) = {k. is_function (map_of (own_enumerable svc) k)}"
proof -
  have "is_function (map_of ps k) \<Longrightarrow> k \<in> fst ` set ps" for k and ps :: "(string \<times> ('a, 'b, 'c) member) list"
    by (cases "map_of ps k") (auto dest!: map_of_SomeD intro: rev_image_eqI)
  then show ?thesis
    unfolding available_own by auto
qed

text \<open>
  Once \<^verbatim>\<open>getQueryService\<close> has returned the service, \<^verbatim>\<open>queryAny\<close> calls \<^verbatim>\<open>close\<close>
  exactly once, as the last thing it does: whatever the method name, the candidates and
  the outcome.
\<close>

lemma queryAny_closes_after_service:
  assumes "fst (getQueryService libs ServiceCtor) = Inr svc"
    and "queryAny libs ServiceCtor methodName reqCandidates s = (outcome, s', trace)"
  shows "length (filter (\<lambda>ev. ev = Open) trace) = 1
       \<and> length (filter (\<lambda>ev. ev = Close) trace) = 1 \<and> last trace = Close"
proof -
  obtain out1 s1 tr1 where q: "query_try svc methodName reqCandidates s = (out1, s1, tr1)"
    by (cases "query_try svc methodName reqCandidates s") auto
  have "Close \<notin> set tr1 \<and> Open \<notin> set tr1"
    using q
    by (auto simp: query_try_def dest: try_candidates_no_close
             split: option.splits member.splits prod.splits loop_exit.splits)
  then have "filter (\<lambda>ev. ev = Close) tr1 = [] \<and> filter (\<lambda>ev. ev = Open) tr1 = []"
    by (induction tr1) auto
  moreover have "trace = Open # tr1 @ [Close]"
    using assms q getQueryService_returns [OF assms(1)] by (simp add: queryAny_def)
  ultimately show ?thesis by simp
qed

text \<open>
  C3. The claim is that \<^verbatim>\<open>close\<close> is called exactly once in every invocation in which
  the connection has been opened. \<^verbatim>\<open>queryAny\<close> awaits \<^verbatim>\<open>getQueryService\<close> before its
  \<^verbatim>\<open>try\<close> statement, and \<^verbatim>\<open>getQueryService\<close> builds the service after it has connected:
  when the service constructor throws, the connection has been opened, the error
  propagates, and \<^verbatim>\<open>close\<close> is never called.
\<close>

theorem queryAny_leaks_connection:
  "queryAny working_libs
     (Inl (Error ''constructor failed'') :: thrown + (nat, nat, string) service_object)
     ''GetRegistry'' [1] 0
   = (Inl (Error ''constructor failed''), 0, [Open])"
  by (simp add: queryAny_def getQueryService_def working_libs_def)

text \<open>
  C4. With the method resolved, \<^verbatim>\<open>queryAny\<close> calls it on the candidates in list order
  and returns the response of the first call that does not throw: when the calls on
  \<open>pre\<close> all throw and the call on \<open>c\<close> returns \<open>r\<close>, the result is \<open>r\<close>, the calls made
  are those on \<open>pre\<close> and then \<open>c\<close>, in this order, followed by \<^verbatim>\<open>close\<close>, and no
  candidate of \<open>post\<close> is called. In every run the calls made are, in order, those on an
  initial segment of the candidate list.
\<close>

theorem queryAny_first_success:
  assumes "fst (getQueryService libs ServiceCtor) = Inr svc"
    and "get_member svc methodName = Some (Function fn)"
  shows "(fails_all fn pre s = Some s1 \<and> fn c s1 = (Inr r, s2) \<longrightarrow>
            queryAny libs ServiceCtor methodName (pre @ c # post) s
              = (Inr r, s2, Open # map Call pre @ [Call c, Close]))
       \<and> (\<exists>k \<le> length reqCandidates.
            snd (snd (queryAny libs ServiceCtor methodName reqCandidates s))
              = Open # map Call (take k reqCandidates) @ [Close])"
proof -
  note g = getQueryService_returns [OF assms(1)]
  have "queryAny libs ServiceCtor methodName (pre @ c # post) s
          = (Inr r, s2, Open # map Call pre @ [Call c, Close])"
    if "fails_all fn pre s = Some s1" and "fn c s1 = (Inr r, s2)"
    using assms(2) g try_candidates_first_success [OF that, of post Throw_undefined]
    by (simp add: queryAny_def query_try_def)
  moreover
  obtain k where k: "k \<le> length reqCandidates"
    "snd (snd (try_candidates fn reqCandidates Throw_undefined s))
       = map Call (take k reqCandidates)"
    using try_candidates_prefix [of reqCandidates fn Throw_undefined s] by blast
  obtain exit s' tr where t: "try_candidates fn reqCandidates Throw_undefined s = (exit, s', tr)"
    by (cases "try_candidates fn reqCandidates Throw_undefined s")
  with k(2) have tr: "tr = map Call (take k reqCandidates)"
    by simp
  from assms(2) g t
  have "snd (snd (queryAny libs ServiceCtor methodName reqCandidates s)) = Open # tr @ [Close]"
    by (cases exit) (simp_all add: queryAny_def query_try_def)
  with k(1) tr
  have "\<exists>k \<le> length reqCandidates.
          snd (snd (queryAny libs ServiceCtor methodName reqCandidates s))
            = Open # map Call (take k reqCandidates) @ [Close]"
    by blast
  ultimately show ?thesis by blast
qed

theorem queryAny_first_success_witness:
  "fst (getQueryService working_libs (Inr QueryRegClient)) = Inr QueryRegClient
   \<and> get_member QueryRegClient ''GetRegistry'' = Some (Function GetRegistry)
   \<and> fails_all GetRegistry [0] 0 = Some 1
   \<and> GetRegistry 1 1 = (Inr ''registry'', 2)
   \<and> queryAny working_libs (Inr QueryRegClient) ''GetRegistry'' [0, 1, 2] 0
       = (Inr ''registry'', 2, [Open, Call 0, Call 1, Close])"
proof -
  have g: "fst (getQueryService working_libs (Inr QueryRegClient)) = Inr QueryRegClient"
    by (simp add: getQueryService_def working_libs_def)
  have m: "get_member QueryRegClient ''GetRegistry'' = Some (Function GetRegistry)"
    by (simp add: get_member_def QueryRegClient_def)
  have f: "fails_all GetRegistry [0] 0 = Some 1"
    by (simp add: GetRegistry_def)
  have c: "GetRegistry 1 1 = (Inr ''registry'', 2)"
    by (simp add: GetRegistry_def)
  from queryAny_first_success [OF g m, of "[0]" 0 1 1 "''registry''" 2 "[2]"] g m f c
  show ?thesis by simp
qed

text \<open>
  C5, as the code has it. With the method resolved, when the calls on all candidates
  throw, \<^verbatim>\<open>queryAny\<close> throws what the call on the last candidate threw, whatever the
  earlier calls threw, unless that value is \<^verbatim>\<open>undefined\<close> or \<^verbatim>\<open>null\<close>: then, as with
  no candidate at all, it throws an \<^verbatim>\<open>Error\<close> whose message is
  \<^verbatim>\<open>All request candidates failed.\<close>
\<close>

theorem queryAny_last_error:
  assumes "fst (getQueryService libs ServiceCtor) = Inr svc"
    and "get_member svc methodName = Some (Function fn)"
  shows "(fails_all fn pre s = Some s1 \<and> fn c s1 = (Inl e, s2) \<longrightarrow>
            queryAny libs ServiceCtor methodName (pre @ [c]) s
              = (Inl (if is_nullish e then Error ''All request candidates failed.'' else e),
                 s2, Open # map Call (pre @ [c]) @ [Close]))
       \<and> queryAny libs ServiceCtor methodName [] s
            = (Inl (Error ''All request candidates failed.''), s, [Open, Close])"
proof -
  note g = getQueryService_returns [OF assms(1)]
  have "queryAny libs ServiceCtor methodName (pre @ [c]) s
          = (Inl (if is_nullish e then Error ''All request candidates failed.'' else e),
             s2, Open # map Call (pre @ [c]) @ [Close])"
    if "fails_all fn pre s = Some s1" and "fn c s1 = (Inl e, s2)"
    using assms(2) g try_candidates_last_error [OF that, of Throw_undefined]
    by (simp add: queryAny_def query_try_def)
  moreover
  have "queryAny libs ServiceCtor methodName [] s
          = (Inl (Error ''All request candidates failed.''), s, [Open, Close])"
    using assms(2) g by (simp add: queryAny_def query_try_def)
  ultimately show ?thesis by blast
qed

theorem queryAny_last_error_witness:
  "fst (getQueryService working_libs (Inr QueryRegClient)) = Inr QueryRegClient
   \<and> get_member QueryRegClient ''GetRegistry'' = Some (Function GetRegistry)
   \<and> fails_all GetRegistry [0] 0 = Some 1
   \<and> GetRegistry 0 0 = (Inl (Error ''bad request 0''), 1)
   \<and> GetRegistry 2 1 = (Inl (Error ''bad request 2''), 2)
   \<and> queryAny working_libs (Inr QueryRegClient) ''GetRegistry'' [0, 2] 0
       = (Inl (Error ''bad request 2''), 2, [Open, Call 0, Call 2, Close])
   \<and> queryAny working_libs (Inr QueryRegClient) ''GetRegistry'' [] 0
       = (Inl (Error ''All request candidates failed.''), 0, [Open, Close])"
proof -
  have g: "fst (getQueryService working_libs (Inr QueryRegClient)) = Inr QueryRegClient"
    by (simp add: getQueryService_def working_libs_def)
  have m: "get_member QueryRegClient ''GetRegistry'' = Some (Function GetRegistry)"
    by (simp add: get_member_def QueryRegClient_def)
  have c0: "GetRegistry 0 0 = (Inl (Error ''bad request 0''), 1)"
    by (simp add: GetRegistry_def digit_simps)
  have f: "fails_all GetRegistry [0] 0 = Some 1"
    by (simp add: c0)
  have c: "GetRegistry 2 1 = (Inl (Error ''bad request 2''), 2)"
    by (simp add: GetRegistry_def digit_simps)
  from queryAny_last_error [OF g m, of "[0]" 0 1 2 "Error ''bad request 2''" 2] g m f c0 c
  show ?thesis by simp
qed

text \<open>
  The claim as the specification states it fails: \<^verbatim>\<open>Ping\<close> rejects with \<^verbatim>\<open>undefined\<close>,
  and with the one candidate 1, which is tried and fails, \<^verbatim>\<open>queryAny\<close> throws the
  generic \<^verbatim>\<open>Error\<close>, not what the last candidate threw.
\<close>

theorem queryAny_last_error_counterexample:
  "Ping 1 0 = (Inl Throw_undefined, 1)
   \<and> queryAny working_libs (Inr PingClient) ''Ping'' [1] 0
       = (Inl (Error ''All request candidates failed.''), 1, [Open, Call 1, Close])
   \<and> Error ''All request candidates failed.'' \<noteq> Throw_undefined"
  by (simp add: queryAny_def getQueryService_def working_libs_def query_try_def get_member_def
        PingClient_def Ping_def)

text \<open>
  C6, as the code has it. When \<^verbatim>\<open>service[methodName]\<close>, looked up among the own
  properties and then along the prototype chain, is not a function, \<^verbatim>\<open>queryAny\<close> calls
  nothing on any candidate and throws an \<^verbatim>\<open>Error\<close> whose message names \<^verbatim>\<open>methodName\<close>
  and lists, joined by a comma and a space, the own enumerable keys of the service whose
  value is a function: every such key and no other. Functions that the service only
  inherits are not listed.
\<close>

theorem queryAny_method_not_found:
  assumes "fst (getQueryService libs ServiceCtor) = Inr svc"
    and "\<not> is_function (get_member svc methodName)"
  shows "queryAny libs ServiceCtor methodName reqCandidates s
           = (Inl (Error (''Method '' @ [CHR 0x27] @ methodName @ [CHR 0x27]
                          @ '' not found. Available: '' @ join '', '' (available svc))),
              s, [Open, Close])
       \<and> available svc
           = filter (\<lambda>k. is_function (map_of (own_enumerable svc) k))
                    (map fst (own_enumerable svc))
       \<and> set (available svc) = {k. is_function (map_of (own_enumerable svc) k)}"
proof -
  have "query_try svc methodName reqCandidates s
           = (Inl (Error (''Method '' @ [CHR 0x27] @ methodName @ [CHR 0x27]
                          @ '' not found. Available: '' @ join '', '' (available svc))),
              s, [])"
    using assms(2) by (cases "get_member svc methodName" rule: is_function.cases)
       (simp_all add: query_try_def)
  with getQueryService_returns [OF assms(1)]
  have "queryAny libs ServiceCtor methodName reqCandidates s
           = (Inl (Error (''Method '' @ [CHR 0x27] @ methodName @ [CHR 0x27]
                          @ '' not found. Available: '' @ join '', '' (available svc))),
              s, [Open, Close])"
    by (simp add: queryAny_def)
  with available_own [of svc] set_available [of svc] show ?thesis
    by blast
qed

theorem queryAny_method_not_found_witness:
  "fst (getQueryService working_libs (Inr QueryRegClient)) = Inr QueryRegClient
   \<and> \<not> is_function (get_member QueryRegClient ''rpc'')
   \<and> queryAny working_libs (Inr QueryRegClient) ''rpc'' [0, 1, 2] (0::nat)
       = (Inl (Error (''Method '' @ [CHR 0x27] @ ''rpc'' @ [CHR 0x27]
                      @ '' not found. Available: GetRegistry, Params'')), 0, [Open, Close])
   \<and> available QueryRegClient = [''GetRegistry'', ''Params'']"
proof -
  have g: "fst (getQueryService working_libs (Inr QueryRegClient)) = Inr QueryRegClient"
    by (simp add: getQueryService_def working_libs_def)
  have n: "\<not> is_function (get_member QueryRegClient ''rpc'')"
    by (simp add: get_member_def QueryRegClient_def)
  have a: "available QueryRegClient = [''GetRegistry'', ''Params'']"
    by (simp add: available_own QueryRegClient_def)
  from queryAny_method_not_found [OF g n, of "[0, 1, 2]" 0] g n a
  show ?thesis by simp
qed

text \<open>
  The claim as the specification states it fails: \<^verbatim>\<open>toString\<close> is a function that
  \<^verbatim>\<open>service[name]\<close> finds on the service, by inheritance, yet the message for the missing
  \<^verbatim>\<open>GetRegistri\<close> lists only \<^verbatim>\<open>GetRegistry\<close> and \<^verbatim>\<open>Params\<close>.
\<close>

theorem queryAny_method_not_found_counterexample:
  "\<not> is_function (get_member QueryRegClient ''GetRegistri'')
   \<and> is_function (get_member QueryRegClient ''toString'')
   \<and> queryAny working_libs (Inr QueryRegClient) ''GetRegistri'' [1] 0
       = (Inl (Error (''Method '' @ [CHR 0x27] @ ''GetRegistri'' @ [CHR 0x27]
                      @ '' not found. Available: GetRegistry, Params'')), 0, [Open, Close])
   \<and> ''toString'' \<notin> set (available QueryRegClient)"
  by (simp add: queryAny_def getQueryService_def working_libs_def query_try_def get_member_def
        available_def service_keys_def QueryRegClient_def)

end
